theory Spec2Isabelle
  imports Main
begin

section \<open>Strings, numbers and buffers of the host language\<close>

text \<open>
  A string of the program is a list of 8-bit characters: its code units, all below 256
  (the ASCII and Latin-1 range, which is what the HTTP parser of the host delivers as header
  values). \<open>length\<close> is the program's \<open>.length\<close>.
\<close>

text \<open>
  A number of the program is a double; the ones met here are integers, and they are
  modelled as unbounded integers. \<open>Date.now()\<close> is an integer of magnitude at most
  8.64e15, for which \<open>Math.floor(now / 1000)\<close> is \<open>now div 1000\<close> and the decimal
  text of the result has no exponent. A parsed timestamp that is too large for exact double
  arithmetic has an age far outside the window in both readings, so the comparisons of the
  verifier agree with the ones on integers.
\<close>

definition StrWhiteSpaceChar :: "char \<Rightarrow> bool" where
  \<comment> \<open>The white space and line terminator code units below 256: TAB, LF, VT, FF, CR, SP, NBSP.\<close>
  "StrWhiteSpaceChar c = ((of_char c :: nat) \<in> {9, 10, 11, 12, 13, 32, 160})"

definition isDigit :: "char \<Rightarrow> bool" where
  "isDigit c = (48 \<le> (of_char c :: nat) \<and> (of_char c :: nat) \<le> 57)"

definition digitValue :: "char \<Rightarrow> nat" where
  "digitValue c = of_char c - 48"

definition digitChar :: "nat \<Rightarrow> char" where
  "digitChar d = ''0123456789'' ! d"

fun digitsOf :: "nat \<Rightarrow> string" where
  "digitsOf n = (if n < 10 then [digitChar n] else digitsOf (n div 10) @ [digitChar (n mod 10)])"

declare digitsOf.simps [simp del]

definition Number_toString :: "int \<Rightarrow> string" where
  \<comment> \<open>\<open>n.toString()\<close> of an integral number: decimal digits, with a minus sign below zero.\<close>
  "Number_toString i = (if i < 0 then CHR ''-'' # digitsOf (nat (- i)) else digitsOf (nat i))"

definition mathInt :: "string \<Rightarrow> nat" where
  "mathInt Z = foldl (\<lambda>a c. 10 * a + digitValue c) 0 Z"

definition parseInt :: "string \<Rightarrow> int option" where
  \<comment> \<open>\<open>parseInt(inputString, 10)\<close>; \<open>None\<close> is NaN. Leading white space is skipped, one sign
      is read, then the longest prefix of decimal digits; what follows the digits is ignored.\<close>
  "parseInt inputString =
     (let S = dropWhile StrWhiteSpaceChar inputString;
          sign = (if S \<noteq> [] \<and> hd S = CHR ''-'' then - 1 else 1);
          S' = (if S \<noteq> [] \<and> (hd S = CHR ''+'' \<or> hd S = CHR ''-'') then tl S else S);
          Z = takeWhile isDigit S'
      in if Z = [] then None else Some (sign * int (mathInt Z)))"

definition utf8_unit :: "char \<Rightarrow> nat list" where
  \<comment> \<open>The UTF-8 bytes of one code unit below 256.\<close>
  "utf8_unit c =
     (let n = (of_char c :: nat)
      in if n < 128 then [n] else [192 + n div 64, 128 + n mod 64])"

definition Buffer_from :: "string \<Rightarrow> nat list" where
  \<comment> \<open>\<open>Buffer.from(s, 'utf8')\<close>\<close>
  "Buffer_from s = concat (map utf8_unit s)"

definition timingSafeEqual :: "nat list \<Rightarrow> nat list \<Rightarrow> bool" where
  \<comment> \<open>Called on buffers of equal length only (the caller's \<open>||\<close> short-circuits).\<close>
  "timingSafeEqual a b = (a = b)"

section \<open>Signing and verifying a webhook call\<close>

datatype header_value = Single string | Multi "string list"

type_synonym headers = "string \<rightharpoonup> header_value"

definition getHeader :: "headers \<Rightarrow> string \<Rightarrow> string option" where
  \<comment> \<open>\<open>None\<close> is \<open>undefined\<close>: the key is unbound, or bound to an empty array.\<close>
  "getHeader hs name =
     (case hs name of
        None \<Rightarrow> None
      | Some (Single s) \<Rightarrow> Some s
      | Some (Multi vs) \<Rightarrow> (case vs of [] \<Rightarrow> None | v # _ \<Rightarrow> Some v))"

datatype WebhookVerificationError =
    MissingSignature
  | MissingTimestamp
  | InvalidTimestamp
  | StaleOrFutureTimestamp
  | InvalidSignature

fun message :: "WebhookVerificationError \<Rightarrow> string" where
  "message MissingSignature = ''Missing x-fo-signature header''"
| "message MissingTimestamp = ''Missing x-fo-timestamp header''"
| "message InvalidTimestamp = ''Invalid x-fo-timestamp header''"
| "message StaleOrFutureTimestamp =
     ''Webhook timestamp is too old or too far in the future. '' @
     ''Check that your server clock is synchronized.''"
| "message InvalidSignature = ''Invalid webhook signature''"

definition TIMESTAMP_TOLERANCE_MS :: int where
  "TIMESTAMP_TOLERANCE_MS = 5 * 60 * 1000"

text \<open>
  The keyed digest \<open>createHmac('sha256', secret).update(payload).digest('hex')\<close> belongs to
  the host's library; it is the parameter \<open>hmac\<close>, applied to the secret and the payload.
  \<open>now\<close> is \<open>Date.now()\<close>, in milliseconds.
\<close>

definition verifyWebhook ::
  "(string \<Rightarrow> string \<Rightarrow> string) \<Rightarrow> int \<Rightarrow> string \<Rightarrow> headers \<Rightarrow> string
     \<Rightarrow> WebhookVerificationError + unit" where
  "verifyWebhook hmac now body hs secret =
     (case getHeader hs ''x-fo-signature'' of
        None \<Rightarrow> Inl MissingSignature
      | Some sig \<Rightarrow>
          if sig = [] then Inl MissingSignature
          else (case getHeader hs ''x-fo-timestamp'' of
             None \<Rightarrow> Inl MissingTimestamp
           | Some tstamp \<Rightarrow>
               if tstamp = [] then Inl MissingTimestamp
               else (case parseInt tstamp of
                  None \<Rightarrow> Inl InvalidTimestamp
                | Some ts \<Rightarrow>
                    let ageMs = now - ts * 1000
                    in if ageMs > TIMESTAMP_TOLERANCE_MS \<or> ageMs < - 60000
                       then Inl StaleOrFutureTimestamp
                       else
                         let payload = tstamp @ ''.'' @ body;
                             expectedHex = hmac secret payload;
                             expected = Buffer_from (''sha256='' @ expectedHex);
                             received = Buffer_from sig
                         in if length expected \<noteq> length received
                               \<or> \<not> timingSafeEqual expected received
                            then Inl InvalidSignature
                            else Inr ())))"

record SignedPayload =
  signature :: string
  timestamp :: string

definition signWebhookPayload ::
  "(string \<Rightarrow> string \<Rightarrow> string) \<Rightarrow> int \<Rightarrow> string \<Rightarrow> string \<Rightarrow> SignedPayload" where
  "signWebhookPayload hmac now body secret =
     (let tstamp = Number_toString (now div 1000);
          sig = ''sha256='' @ hmac secret (tstamp @ ''.'' @ body)
      in \<lparr>signature = sig, timestamp = tstamp\<rparr>)"

definition signedHeaders :: "SignedPayload \<Rightarrow> headers" where
  \<comment> \<open>\<open>{ 'x-fo-signature': signature, 'x-fo-timestamp': timestamp }\<close>\<close>
  "signedHeaders sp =
     [''x-fo-signature'' \<mapsto> Single (signature sp), ''x-fo-timestamp'' \<mapsto> Single (timestamp sp)]"

section \<open>Defining a tool\<close>

record ('s, 'x) DefineToolConfig =
  config_name :: string
  config_description :: string
  config_parameters :: 's
  config_env :: "string list option"
  config_execute :: 'x

record ('s, 'x) FoTool =
  tool_name :: string
  tool_description :: string
  tool_parameters :: 's
  tool_env :: "string list"
  tool_execute :: 'x
  tool_brand :: string

datatype DefineToolError =
    InvalidName
  | NameTooLong
  | EmptyDescription
  | DescriptionTooLong

definition isLower :: "char \<Rightarrow> bool" where
  "isLower c = (97 \<le> (of_char c :: nat) \<and> (of_char c :: nat) \<le> 122)"

definition TOOL_NAME_REGEX_test :: "string \<Rightarrow> bool" where
  \<comment> \<open>\<open>/^[a-z][a-z0-9_]*$/.test(s)\<close>\<close>
  "TOOL_NAME_REGEX_test s =
     (case s of
        [] \<Rightarrow> False
      | c # cs \<Rightarrow> isLower c \<and> list_all (\<lambda>d. isLower d \<or> isDigit d \<or> d = CHR ''_'') cs)"

definition trim :: "string \<Rightarrow> string" where
  "trim s = rev (dropWhile StrWhiteSpaceChar (rev (dropWhile StrWhiteSpaceChar s)))"

definition defineTool :: "('s, 'x) DefineToolConfig \<Rightarrow> DefineToolError + ('s, 'x) FoTool" where
  "defineTool config =
     (if \<not> TOOL_NAME_REGEX_test (config_name config) then Inl InvalidName
      else if length (config_name config) > 64 then Inl NameTooLong
      else if trim (config_description config) = [] then Inl EmptyDescription
      else if length (config_description config) > 1024 then Inl DescriptionTooLong
      else Inr \<lparr>tool_name = config_name config,
                tool_description = config_description config,
                tool_parameters = config_parameters config,
                tool_env = (case config_env config of None \<Rightarrow> [] | Some e \<Rightarrow> e),
                tool_execute = config_execute config,
                tool_brand = ''FoTool''\<rparr>)"

section \<open>Handling a request\<close>

datatype json =
    JNull
  | JBool bool
  | JNum int
  | JStr string
  | JArr "json list"
  | JObj "(string \<times> json) list"

datatype thrown =
    Error string
  | NonError
  | TypeError
  | ERR_HTTP_HEADERS_SENT

text \<open>
  What a \<open>throw\<close> or a rejected promise carries: an \<open>Error\<close> with its message, a value that
  is not an \<open>Error\<close>, and two errors of the host that the handler itself can raise: the
  \<open>TypeError\<close> of reading a property of \<open>null\<close>, and the error of \<open>writeHead\<close> on a
  response whose head is already stored.
\<close>

definition getProp :: "json \<Rightarrow> string \<Rightarrow> thrown + json option" where
  \<comment> \<open>\<open>v.k\<close> for the keys the handler reads (\<open>params\<close>, \<open>context\<close>, \<open>requestId\<close>): reading a
      property of \<open>null\<close> throws, a primitive or an array has none of them (\<open>None\<close> is
      \<open>undefined\<close>), and in a parsed object the last binding of a repeated key counts.\<close>
  "getProp v k =
     (case v of
        JNull \<Rightarrow> Inl TypeError
      | JObj kvs \<Rightarrow> Inr (map_of (rev kvs) k)
      | _ \<Rightarrow> Inr None)"

fun ownProperties :: "json option \<Rightarrow> (string \<times> json) list" where
  \<comment> \<open>What the spread \<open>...v\<close> copies into an object literal.\<close>
  "ownProperties (Some (JObj kvs)) = kvs"
| "ownProperties (Some (JArr xs)) = zip (map digitsOf [0..<length xs]) xs"
| "ownProperties (Some (JStr s)) = zip (map digitsOf [0..<length s]) (map (\<lambda>c. JStr [c]) s)"
| "ownProperties _ = []"

text \<open>
  The ambient environment \<open>process_env\<close> maps the names of the variables that are set to
  their strings. The object \<open>process.env\<close> and the object literal \<open>{}\<close> both inherit from
  \<open>Object.prototype\<close>, so reading a name that is not a variable finds the member of the
  prototype of that name, if there is one, and assigning to \<open>__proto__\<close> runs the
  prototype's setter and creates no property. A value of the \<open>env\<close> object is therefore
  the string of a variable or a member of the prototype; its keys are its own properties.
\<close>

definition Object_prototype :: "string list" where
  "Object_prototype =
     [''constructor'', ''__defineGetter__'', ''__defineSetter__'', ''hasOwnProperty'',
      ''__lookupGetter__'', ''__lookupSetter__'', ''isPrototypeOf'', ''propertyIsEnumerable'',
      ''toString'', ''valueOf'', ''__proto__'', ''toLocaleString'']"

datatype env_value = Variable string | Member string

definition getEnv :: "(string \<rightharpoonup> string) \<Rightarrow> string \<Rightarrow> env_value option" where
  \<comment> \<open>\<open>process.env[key]\<close>; \<open>None\<close> is \<open>undefined\<close>.\<close>
  "getEnv process_env key =
     (case process_env key of
        Some val \<Rightarrow> Some (Variable val)
      | None \<Rightarrow> if key \<in> set Object_prototype then Some (Member key) else None)"

definition setProperty ::
  "(string \<rightharpoonup> env_value) \<Rightarrow> string \<Rightarrow> env_value \<Rightarrow> (string \<rightharpoonup> env_value)" where
  \<comment> \<open>\<open>env[key] = val\<close>\<close>
  "setProperty env key val = (if key = ''__proto__'' then env else env(key \<mapsto> val))"

record ToolContext =
  context_fields :: "string \<rightharpoonup> json"
  context_env :: "string \<rightharpoonup> env_value"
  context_log :: "string \<times> json option"

definition injectEnv :: "(string \<rightharpoonup> string) \<Rightarrow> string list \<Rightarrow> (string \<rightharpoonup> env_value)" where
  \<comment> \<open>The loop over \<open>tool.env\<close>, starting from the empty object.\<close>
  "injectEnv process_env keys =
     foldl (\<lambda>env key. case getEnv process_env key of
                         None \<Rightarrow> env
                       | Some val \<Rightarrow> setProperty env key val)
       Map.empty keys"

definition makeContext ::
  "(string \<rightharpoonup> string) \<Rightarrow> string \<Rightarrow> string list \<Rightarrow> json option \<Rightarrow> json option \<Rightarrow> ToolContext" where
  \<comment> \<open>\<open>{ ...payload.context, env, log }\<close>: \<open>env\<close> and \<open>log\<close> come last and replace spread
      fields of these names; the logger is given by the tool name and request id in its tag.\<close>
  "makeContext process_env name keys ctx requestId =
     \<lparr>context_fields = (map_of (rev (ownProperties ctx))) |` (- {''env'', ''log''}),
      context_env = injectEnv process_env keys,
      context_log = (name, requestId)\<rparr>"

datatype ('i, 'p) SafeParseReturnType = SafeParseSuccess 'p | SafeParseError 'i

datatype ('i, 'r) response_body =
    ErrorBody string
  | ValidationBody string 'i
  | SuccessBody 'r
  | FailureBody string

record IncomingMessage =
  req_method :: string
  req_headers :: headers
  req_body :: "string option"

record ('i, 'p, 'r) handled =
  head_stored :: "nat option"
  responses :: "(nat \<times> ('i, 'r) response_body) list"
  executions :: "('p \<times> ToolContext) list"
  console_errors :: "thrown list"
  escaped :: "thrown option"

text \<open>
  A run of the handler is given by what it does, in order: the status that \<open>writeHead\<close>
  stored, the responses it completed with \<open>end\<close>, the calls of \<open>execute\<close> with their
  arguments, what it wrote to \<open>console.error\<close>, and the exception that left it, if any.
  \<open>req_body\<close> is what reading the stream gives (\<open>None\<close>: the stream fails).

  The host supplies \<open>JSON_parse\<close> (\<open>None\<close>: a SyntaxError), the ambient \<open>process_env\<close>,
  and \<open>JSON_stringify\<close>, which says what \<open>JSON.stringify\<close> throws on an issue list or on a
  result (\<open>None\<close>: it returns the text; a BigInt or a cycle makes it throw). The schema's
  \<open>safeParse\<close> is the tool's \<open>tool_parameters\<close>: it throws, or returns the issues, or
  returns the validated data. \<open>execute\<close> settles with its result or with what it throws.
\<close>

definition fresh :: "('i, 'p, 'r) handled" where
  "fresh = \<lparr>head_stored = None, responses = [], executions = [], console_errors = [],
            escaped = None\<rparr>"

definition stringifyBody ::
  "('i + 'r \<Rightarrow> thrown option) \<Rightarrow> ('i, 'r) response_body \<Rightarrow> thrown option" where
  \<comment> \<open>\<open>JSON.stringify(body)\<close>: a body of strings and booleans always has a text.\<close>
  "stringifyBody JSON_stringify body =
     (case body of
        ErrorBody _ \<Rightarrow> None
      | FailureBody _ \<Rightarrow> None
      | ValidationBody _ issues \<Rightarrow> JSON_stringify (Inl issues)
      | SuccessBody result \<Rightarrow> JSON_stringify (Inr result))"

definition sendJson ::
  "('i + 'r \<Rightarrow> thrown option) \<Rightarrow> ('i, 'p, 'r) handled \<Rightarrow> nat \<Rightarrow> ('i, 'r) response_body
     \<Rightarrow> thrown option \<times> ('i, 'p, 'r) handled" where
  \<comment> \<open>\<open>writeHead\<close>, then \<open>JSON.stringify\<close>, then \<open>end\<close>; the first component is what it
      throws.\<close>
  "sendJson JSON_stringify res status body =
     (case head_stored res of
        Some _ \<Rightarrow> (Some ERR_HTTP_HEADERS_SENT, res)
      | None \<Rightarrow>
         (case stringifyBody JSON_stringify body of
            Some exn \<Rightarrow> (Some exn, res\<lparr>head_stored := Some status\<rparr>)
          | None \<Rightarrow>
              (None, res\<lparr>head_stored := Some status,
                         responses := responses res @ [(status, body)]\<rparr>)))"

definition answer ::
  "('i + 'r \<Rightarrow> thrown option) \<Rightarrow> ('i, 'p, 'r) handled \<Rightarrow> nat \<Rightarrow> ('i, 'r) response_body
     \<Rightarrow> ('i, 'p, 'r) handled" where
  \<comment> \<open>\<open>sendJson(...)\<close> outside every \<open>try\<close>, followed by \<open>return\<close>: what it throws leaves
      the handler.\<close>
  "answer JSON_stringify res status body =
     (case sendJson JSON_stringify res status body of
        (None, res') \<Rightarrow> res'
      | (Some exn, res') \<Rightarrow> res'\<lparr>escaped := Some exn\<rparr>)"

definition throws :: "thrown \<Rightarrow> ('i, 'p, 'r) handled" where
  \<comment> \<open>A run that an exception leaves before anything else happened.\<close>
  "throws exn = \<lparr>head_stored = None, responses = [], executions = [], console_errors = [],
                 escaped = Some exn\<rparr>"

fun caughtMessage :: "thrown \<Rightarrow> string" where
  \<comment> \<open>\<open>err instanceof Error ? err.message : 'Tool execution failed'\<close>\<close>
  "caughtMessage (Error m) = m"
| "caughtMessage NonError = ''Tool execution failed''"
| "caughtMessage TypeError = ''Cannot read properties of null''"
| "caughtMessage ERR_HTTP_HEADERS_SENT = ''Cannot write headers after they are sent to the client''"

definition catchBlock ::
  "('i + 'r \<Rightarrow> thrown option) \<Rightarrow> ('i, 'p, 'r) handled \<Rightarrow> thrown \<Rightarrow> ('i, 'p, 'r) handled" where
  \<comment> \<open>The \<open>catch\<close> of the last \<open>try\<close>: log the error, then send 500.\<close>
  "catchBlock JSON_stringify res err =
     answer JSON_stringify (res\<lparr>console_errors := console_errors res @ [err]\<rparr>) 500
       (FailureBody (caughtMessage err))"

definition createToolHandler ::
  "(string \<Rightarrow> string \<Rightarrow> string) \<Rightarrow> (string \<Rightarrow> json option) \<Rightarrow> ('i + 'r \<Rightarrow> thrown option)
     \<Rightarrow> (string \<rightharpoonup> string) \<Rightarrow> int
     \<Rightarrow> (json option \<Rightarrow> thrown + ('i, 'p) SafeParseReturnType,
         'p \<Rightarrow> ToolContext \<Rightarrow> thrown + 'r) FoTool
     \<Rightarrow> string \<Rightarrow> IncomingMessage \<Rightarrow> ('i, 'p, 'r) handled" where
  "createToolHandler hmac JSON_parse JSON_stringify process_env now tool secret req =
     (if req_method req \<noteq> ''POST''
      then answer JSON_stringify fresh 405 (ErrorBody ''Method not allowed'')
      else case req_body req of
        None \<Rightarrow> answer JSON_stringify fresh 400 (ErrorBody ''Failed to read request body'')
      | Some rawBody \<Rightarrow>
         (case verifyWebhook hmac now rawBody (req_headers req) secret of
            Inl err \<Rightarrow> answer JSON_stringify fresh 401 (ErrorBody (message err))
          | Inr _ \<Rightarrow>
             (case JSON_parse rawBody of
                None \<Rightarrow> answer JSON_stringify fresh 400 (ErrorBody ''Invalid JSON body'')
              | Some payload \<Rightarrow>
                 (case getProp payload ''params'' of
                    Inl exn \<Rightarrow> throws exn
                  | Inr params \<Rightarrow>
                     (case tool_parameters tool params of
                        Inl exn \<Rightarrow> throws exn
                      | Inr (SafeParseError issues) \<Rightarrow>
                          answer JSON_stringify fresh 422
                            (ValidationBody ''Invalid tool parameters'' issues)
                      | Inr (SafeParseSuccess data) \<Rightarrow>
                         (case getProp payload ''context'' of
                            Inl exn \<Rightarrow> throws exn
                          | Inr ctx \<Rightarrow>
                             (case getProp payload ''requestId'' of
                                Inl exn \<Rightarrow> throws exn
                              | Inr requestId \<Rightarrow>
                                 let context = makeContext process_env (tool_name tool)
                                                 (tool_env tool) ctx requestId;
                                     res = fresh\<lparr>executions := [(data, context)]\<rparr>
                                 in (case tool_execute tool data context of
                                       Inl err \<Rightarrow> catchBlock JSON_stringify res err
                                     | Inr result \<Rightarrow>
                                        (case sendJson JSON_stringify res 200
                                                (SuccessBody result) of
                                           (None, res') \<Rightarrow> res'
                                         | (Some err, res') \<Rightarrow>
                                             catchBlock JSON_stringify res' err)))))))))"

section \<open>Sample collaborators for concrete runs\<close>

text \<open>
  The theorems below hold for every digest function and every parser. To run the model on
  concrete requests, a digest and a parser are fixed here: a digest that writes the secret
  and the payload in hexadecimal, and a parser that knows the bodies of the examples.
\<close>

definition hexDigit :: "nat \<Rightarrow> char" where
  "hexDigit d = ''0123456789abcdef'' ! d"


definition sample_hmac :: "string \<Rightarrow> string \<Rightarrow> string" where
  "sample_hmac secret payload =
     concat (map (\<lambda>c. [hexDigit ((of_char c :: nat) div 16), hexDigit ((of_char c :: nat) mod 16)])
       (secret @ payload))"

definition sample_body_ok :: string where
  "sample_body_ok = ''{\"params\":{\"value\":21},\"requestId\":\"r1\"}''"

definition sample_body_bad_params :: string where
  "sample_body_bad_params = ''{\"params\":{\"value\":\"x\"}}''"

definition sample_JSON_parse :: "string \<Rightarrow> json option" where
  "sample_JSON_parse =
     map_of
       [(''null'', JNull),
        (sample_body_ok,
           JObj [(''params'', JObj [(''value'', JNum 21)]), (''requestId'', JStr ''r1'')]),
        (sample_body_bad_params,
           JObj [(''params'', JObj [(''value'', JStr ''x'')])])]"

datatype sample_result = Doubled int | BigInt int

type_synonym sample_tool =
  "(json option \<Rightarrow> thrown + (string list, int) SafeParseReturnType,
    int \<Rightarrow> ToolContext \<Rightarrow> thrown + sample_result) FoTool"

definition sample_JSON_stringify :: "string list + sample_result \<Rightarrow> thrown option" where
  \<comment> \<open>An issue list of strings and an object holding a number have a text; a BigInt has
      none.\<close>
  "sample_JSON_stringify v =
     (case v of
        Inr (BigInt _) \<Rightarrow> Some (Error ''Do not know how to serialize a BigInt'')
      | _ \<Rightarrow> None)"

definition echo_tool :: sample_tool where
  \<comment> \<open>The tool of the test suite: the schema \<open>{value: number}\<close>, the result
      \<open>{doubled: value * 2}\<close>.\<close>
  "echo_tool =
     \<lparr>tool_name = ''echo_tool'',
      tool_description = ''Echoes the input'',
      tool_parameters =
        (\<lambda>v. case v of
               Some (JObj kvs) \<Rightarrow>
                 (case map_of (rev kvs) ''value'' of
                    Some (JNum n) \<Rightarrow> Inr (SafeParseSuccess n)
                  | _ \<Rightarrow> Inr (SafeParseError [''value: expected number'']))
             | _ \<Rightarrow> Inr (SafeParseError [''expected object''])),
      tool_env = [''API_KEY'', ''UNSET_KEY''],
      tool_execute = (\<lambda>n ctx. Inr (Doubled (2 * n))),
      tool_brand = ''FoTool''\<rparr>"

definition failing_tool :: sample_tool where
  "failing_tool = echo_tool\<lparr>tool_execute := (\<lambda>n ctx. Inl (Error ''boom''))\<rparr>"

definition bigint_tool :: sample_tool where
  \<comment> \<open>A tool whose result is the BigInt \<open>BigInt(value) * 2n\<close>.\<close>
  "bigint_tool = echo_tool\<lparr>tool_execute := (\<lambda>n ctx. Inr (BigInt (2 * n)))\<rparr>"

definition prototype_tool :: sample_tool where
  \<comment> \<open>A tool that declares the name \<open>toString\<close> in its \<open>env\<close> list.\<close>
  "prototype_tool = echo_tool\<lparr>tool_env := [''toString'', ''API_KEY'']\<rparr>"

definition sample_env :: "string \<rightharpoonup> string" where
  "sample_env = [''API_KEY'' \<mapsto> ''k1'', ''HOME'' \<mapsto> ''/root'']"

definition signedRequest :: "int \<Rightarrow> string \<Rightarrow> string \<Rightarrow> IncomingMessage" where
  \<comment> \<open>A POST of \<open>body\<close>, signed at \<open>now\<close> with \<open>secret\<close> and the sample digest.\<close>
  "signedRequest now body secret =
     \<lparr>req_method = ''POST'',
      req_headers = signedHeaders (signWebhookPayload sample_hmac now body secret),
      req_body = Some body\<rparr>"

definition prototype_context :: ToolContext where
  "prototype_context =
     makeContext sample_env ''echo_tool'' [''toString'', ''API_KEY''] None (Some (JStr ''r1''))"

definition sample_context :: ToolContext where
  "sample_context =
     makeContext sample_env ''echo_tool'' [''API_KEY'', ''UNSET_KEY''] None (Some (JStr ''r1''))"

definition sample_headers :: headers where
  \<comment> \<open>What the sample digest signs for the body \<open>{}\<close> with the secret \<open>k\<close> at second 1234.\<close>
  "sample_headers =
     [''x-fo-signature'' \<mapsto> Single ''sha256=6b313233342e7b7d'',
      ''x-fo-timestamp'' \<mapsto> Single ''1234'']"

definition suffixed_headers :: headers where
  \<comment> \<open>Signed by the sample digest for the body \<open>{}\<close>, the secret \<open>k\<close> and the timestamp
      text \<open>123abc\<close>.\<close>
  "suffixed_headers =
     [''x-fo-signature'' \<mapsto> Single ''sha256=6b3132336162632e7b7d'',
      ''x-fo-timestamp'' \<mapsto> Single ''123abc'']"

definition wordy_headers :: headers where
  "wordy_headers =
     [''x-fo-signature'' \<mapsto> Single ''sha256=6b3132336162632e7b7d'',
      ''x-fo-timestamp'' \<mapsto> Single ''soon'']"



definition unsigned_request :: IncomingMessage where
  "unsigned_request =
     \<lparr>req_method = ''POST'', req_headers = Map.empty, req_body = Some sample_body_ok\<rparr>"

definition blank_config :: "(unit, unit) DefineToolConfig" where
  "blank_config =
     \<lparr>config_name = ''query_crm'', config_description = ''   '',
      config_parameters = (), config_env = None, config_execute = ()\<rparr>"

definition crm_config :: "(unit, unit) DefineToolConfig" where
  "crm_config =
     \<lparr>config_name = ''query_crm'',
      config_description = ''Look up a contact or deal in Salesforce CRM'',
      config_parameters = (), config_env = Some [''SALESFORCE_TOKEN''], config_execute = ()\<rparr>"

section \<open>Strings that hold no number\<close>

definition noNumber :: "string \<Rightarrow> bool" where
  \<comment> \<open>After leading white space and one optional sign, the string does not go on with a
      decimal digit.\<close>
  "noNumber t =
     (case dropWhile StrWhiteSpaceChar t of
        [] \<Rightarrow> True
      | c # cs \<Rightarrow>
          if c = CHR ''+'' \<or> c = CHR ''-'' then (case cs of [] \<Rightarrow> True | d # _ \<Rightarrow> \<not> isDigit d)
          else \<not> isDigit c)"

section \<open>Decimal numerals\<close>

lemma digitsOf_nonempty: "digitsOf n \<noteq> []"
  by (subst digitsOf.simps) simp

lemma isDigit_digitChar: "d < 10 \<Longrightarrow> isDigit (digitChar d)"
proof -
  assume "d < 10"
  then have "d \<in> {0, 1, 2, 3, 4, 5, 6, 7, 8, 9}" by auto
  then show ?thesis by (auto simp: isDigit_def digitChar_def)
qed

lemma digitValue_digitChar: "d < 10 \<Longrightarrow> digitValue (digitChar d) = d"
proof -
  assume "d < 10"
  then have "d \<in> {0, 1, 2, 3, 4, 5, 6, 7, 8, 9}" by auto
  then show ?thesis by (auto simp: digitValue_def digitChar_def)
qed

lemma digitsOf_all_digits: "\<forall>c \<in> set (digitsOf n). isDigit c"
proof (induction n rule: digitsOf.induct)
  case (1 n)
  show ?case
  proof (cases "n < 10")
    case True
    then show ?thesis by (subst digitsOf.simps) (simp add: isDigit_digitChar)
  next
    case False
    with 1 show ?thesis by (subst digitsOf.simps) (simp add: isDigit_digitChar)
  qed
qed

lemma mathInt_snoc: "mathInt (Z @ [c]) = 10 * mathInt Z + digitValue c"
  by (simp add: mathInt_def)

lemma mathInt_digitsOf: "mathInt (digitsOf n) = n"
proof (induction n rule: digitsOf.induct)
  case (1 n)
  show ?case
  proof (cases "n < 10")
    case True
    then show ?thesis by (subst digitsOf.simps) (simp add: mathInt_def digitValue_digitChar)
  next
    case False
    with 1 show ?thesis
      by (subst digitsOf.simps) (simp add: mathInt_snoc digitValue_digitChar)
  qed
qed

lemma isDigit_not_special:
  "isDigit c \<Longrightarrow> \<not> StrWhiteSpaceChar c \<and> c \<noteq> CHR ''-'' \<and> c \<noteq> CHR ''+''"
  by (auto simp: isDigit_def StrWhiteSpaceChar_def)

lemma parseInt_digits:
  assumes "Z \<noteq> []" "\<forall>c \<in> set Z. isDigit c"
  shows "parseInt Z = Some (int (mathInt Z))"
proof -
  from assms obtain c cs where Z: "Z = c # cs" by (cases Z) auto
  with assms have c: "isDigit c" by simp
  have tw: "takeWhile isDigit Z = Z" using assms by (simp add: takeWhile_eq_all_conv)
  have dw: "dropWhile StrWhiteSpaceChar Z = Z" using Z c isDigit_not_special by simp
  have hd: "hd Z \<noteq> CHR ''-''" "hd Z \<noteq> CHR ''+''"
    using Z isDigit_not_special[OF c] by simp_all
  show ?thesis using assms(1)
    by (simp add: parseInt_def Let_def dw hd tw)
qed

lemma minus_not_white: "\<not> StrWhiteSpaceChar CHR ''-''"
  by (simp add: StrWhiteSpaceChar_def)

lemma parseInt_minus_digits:
  assumes "Z \<noteq> []" "\<forall>c \<in> set Z. isDigit c"
  shows "parseInt (CHR ''-'' # Z) = Some (- int (mathInt Z))"
proof -
  have tw: "takeWhile isDigit Z = Z" using assms by (simp add: takeWhile_eq_all_conv)
  show ?thesis using assms(1)
    by (simp add: parseInt_def Let_def tw minus_not_white)
qed

lemma parseInt_Number_toString: "parseInt (Number_toString i) = Some i"
  by (simp add: Number_toString_def parseInt_digits parseInt_minus_digits
      digitsOf_nonempty digitsOf_all_digits mathInt_digitsOf)

lemma Number_toString_nonempty: "Number_toString i \<noteq> []"
  by (simp add: Number_toString_def digitsOf_nonempty)

lemma age_of_fresh_timestamp:
  "\<not> (now - (now div 1000) * 1000 > TIMESTAMP_TOLERANCE_MS \<or> now - (now div 1000) * 1000 < - 60000)"
proof -
  have age: "now - (now div 1000) * 1000 = now mod 1000"
    by (simp add: minus_div_mult_eq_mod)
  have "0 \<le> now mod 1000" and "now mod 1000 < 1000" by simp_all
  then show ?thesis unfolding age TIMESTAMP_TOLERANCE_MS_def by arith
qed

lemma sample_signature:
  "signWebhookPayload sample_hmac 1234567 ''{}'' ''k'' =
     \<lparr>signature = ''sha256=6b313233342e7b7d'', timestamp = ''1234''\<rparr>"
  by (simp add: signWebhookPayload_def Number_toString_def digitsOf.simps digitChar_def
      sample_hmac_def hexDigit_def)

lemma takeWhile_empty_iff:
  "takeWhile P xs = [] \<longleftrightarrow> (case xs of [] \<Rightarrow> True | x # _ \<Rightarrow> \<not> P x)"
  by (cases xs) simp_all

lemma digits_after_sign:
  "takeWhile isDigit (if S \<noteq> [] \<and> (hd S = CHR ''+'' \<or> hd S = CHR ''-'') then tl S else S) = []
     \<longleftrightarrow> (case S of
            [] \<Rightarrow> True
          | c # cs \<Rightarrow>
              if c = CHR ''+'' \<or> c = CHR ''-'' then (case cs of [] \<Rightarrow> True | d # _ \<Rightarrow> \<not> isDigit d)
              else \<not> isDigit c)"
  by (cases S) (auto simp: takeWhile_empty_iff split: list.splits)

lemma parseInt_None_iff: "parseInt t = None \<longleftrightarrow> noNumber t"
proof -
  let ?S = "dropWhile StrWhiteSpaceChar t"
  let ?Z = "takeWhile isDigit
              (if ?S \<noteq> [] \<and> (hd ?S = CHR ''+'' \<or> hd ?S = CHR ''-'') then tl ?S else ?S)"
  have "parseInt t = None \<longleftrightarrow> ?Z = []"
    unfolding parseInt_def Let_def by (cases "?Z = []") simp_all
  then show ?thesis
    unfolding noNumber_def digits_after_sign .
qed

lemma parseInt_digit_prefix:
  assumes "ds \<noteq> []" "\<forall>c \<in> set ds. isDigit c" "case rest of [] \<Rightarrow> True | r # _ \<Rightarrow> \<not> isDigit r"
  shows "parseInt (ds @ rest) = Some (int (mathInt ds))"
proof -
  from assms obtain c cs where Z: "ds = c # cs" by (cases ds) auto
  with assms have c: "isDigit c" by simp
  have tw: "takeWhile isDigit (ds @ rest) = ds"
    using assms(2,3) by (cases rest) (simp_all add: takeWhile_append2 takeWhile_eq_all_conv)
  have dw: "dropWhile StrWhiteSpaceChar (ds @ rest) = ds @ rest"
    using Z c isDigit_not_special by simp
  have hd: "hd ds \<noteq> CHR ''-''" "hd ds \<noteq> CHR ''+''"
    using Z isDigit_not_special[OF c] by simp_all
  show ?thesis using assms(1)
    by (simp add: parseInt_def Let_def dw hd tw)
qed

section \<open>Buffers\<close>

lemma utf8_unit_nonempty: "utf8_unit c \<noteq> []"
  by (simp add: utf8_unit_def Let_def)

lemma utf8_unit_prefix_free:
  assumes "utf8_unit a @ r = utf8_unit b @ r'"
  shows "a = b \<and> r = r'"
proof -
  let ?m = "of_char a :: nat" and ?n = "of_char b :: nat"
  have eq: "?m = ?n \<and> r = r'"
  proof (cases "?m < 128"; cases "?n < 128")
    assume "?m < 128" "?n < 128"
    with assms show ?thesis by (simp add: utf8_unit_def Let_def)
  next
    assume "?m < 128" "\<not> ?n < 128"
    with assms show ?thesis by (simp add: utf8_unit_def Let_def)
  next
    assume "\<not> ?m < 128" "?n < 128"
    with assms show ?thesis by (simp add: utf8_unit_def Let_def)
  next
    assume "\<not> ?m < 128" "\<not> ?n < 128"
    with assms have d: "?m div 64 = ?n div 64" and m: "?m mod 64 = ?n mod 64" and r: "r = r'"
      by (simp_all add: utf8_unit_def Let_def)
    have "?m = ?n" using d m by (metis div_mult_mod_eq)
    with r show ?thesis by simp
  qed
  then show ?thesis by simp
qed

lemma Buffer_from_inject: "Buffer_from x = Buffer_from y \<Longrightarrow> x = y"
proof (induction x arbitrary: y)
  case Nil
  then show ?case by (cases y) (simp_all add: Buffer_from_def utf8_unit_nonempty)
next
  case (Cons a x)
  show ?case
  proof (cases y)
    case Nil
    with Cons.prems show ?thesis by (simp add: Buffer_from_def utf8_unit_nonempty)
  next
    case (Cons b y')
    with Cons.prems have "utf8_unit a @ Buffer_from x = utf8_unit b @ Buffer_from y'"
      by (simp add: Buffer_from_def)
    then have "a = b" and "Buffer_from x = Buffer_from y'"
      using utf8_unit_prefix_free by blast+
    with Cons.IH Cons show ?thesis by simp
  qed
qed

lemma Buffer_from_eq_iff: "Buffer_from x = Buffer_from y \<longleftrightarrow> x = y"
  using Buffer_from_inject by blast

section \<open>Signing and verifying\<close>

text \<open>
  Once both headers are there and not empty, the verifier is a chain of three checks: the
  timestamp parses, its age is inside the window, the signature is the recomputed one.
\<close>

lemma verifyWebhook_checked:
  assumes "getHeader hs ''x-fo-signature'' = Some sig" "sig \<noteq> []"
    and "getHeader hs ''x-fo-timestamp'' = Some t" "t \<noteq> []"
  shows "verifyWebhook hmac now body hs secret =
     (case parseInt t of
        None \<Rightarrow> Inl InvalidTimestamp
      | Some ts \<Rightarrow>
          if now - ts * 1000 > 300000 \<or> now - ts * 1000 < - 60000 then Inl StaleOrFutureTimestamp
          else if sig = ''sha256='' @ hmac secret (t @ ''.'' @ body) then Inr ()
          else Inl InvalidSignature)"
  using assms
  by (auto simp: verifyWebhook_def Let_def TIMESTAMP_TOLERANCE_MS_def timingSafeEqual_def
      Buffer_from_eq_iff split: option.splits)

lemma verifyWebhook_signed:
  "verifyWebhook hmac now' body (signedHeaders (signWebhookPayload hmac now B S)) secret =
     (if now' - (now div 1000) * 1000 > 300000 \<or> now' - (now div 1000) * 1000 < - 60000
      then Inl StaleOrFutureTimestamp
      else if hmac S (Number_toString (now div 1000) @ ''.'' @ B)
               = hmac secret (Number_toString (now div 1000) @ ''.'' @ body)
      then Inr () else Inl InvalidSignature)"
proof -
  let ?sp = "signWebhookPayload hmac now B S"
  have 1: "getHeader (signedHeaders ?sp) ''x-fo-signature'' = Some (signature ?sp)"
    and 2: "getHeader (signedHeaders ?sp) ''x-fo-timestamp'' = Some (timestamp ?sp)"
    by (simp_all add: signedHeaders_def getHeader_def)
  have 3: "signature ?sp \<noteq> []" and 4: "timestamp ?sp \<noteq> []"
    by (simp_all add: signWebhookPayload_def Let_def Number_toString_nonempty)
  have 5: "parseInt (timestamp ?sp) = Some (now div 1000)"
    and 6: "timestamp ?sp = Number_toString (now div 1000)"
    by (simp_all add: signWebhookPayload_def Let_def parseInt_Number_toString)
  have 7: "signature ?sp = ''sha256='' @ hmac S (timestamp ?sp @ ''.'' @ B)"
    by (simp add: signWebhookPayload_def Let_def)
  show ?thesis
    unfolding verifyWebhook_checked[OF 1 3 2 4] 5 by (simp add: 7 6)
qed

lemma verifyWebhook_fresh:
  "verifyWebhook hmac now B (signedHeaders (signWebhookPayload hmac now B S)) S = Inr ()"
  using age_of_fresh_timestamp[of now]
  by (simp add: verifyWebhook_signed TIMESTAMP_TOLERANCE_MS_def)

lemma verifyWebhook_cong:
  assumes "getHeader hs ''x-fo-signature'' = getHeader hs' ''x-fo-signature''"
    and "getHeader hs ''x-fo-timestamp'' = getHeader hs' ''x-fo-timestamp''"
  shows "verifyWebhook hmac now body hs secret = verifyWebhook hmac now body hs' secret"
  unfolding verifyWebhook_def assms ..

text \<open>
  C1. For every body and every secret, the signature and timestamp that
  \<open>signWebhookPayload\<close> produces at time \<open>now\<close> are accepted by \<open>verifyWebhook\<close> called at
  the same time with the same body and secret, whatever the digest function is.
\<close>

theorem sign_then_verify_succeeds:
  "verifyWebhook hmac now B (signedHeaders (signWebhookPayload hmac now B S)) S = Inr ()"
  by (rule verifyWebhook_fresh)

theorem sign_then_verify_succeeds_witness:
  "verifyWebhook sample_hmac 1234567 ''{}''
     [''x-fo-signature'' \<mapsto> Single ''sha256=6b313233342e7b7d'',
      ''x-fo-timestamp'' \<mapsto> Single ''1234''] ''k'' = Inr ()"
  using sign_then_verify_succeeds[of sample_hmac 1234567 "''{}''" "''k''"]
  by (simp add: sample_signature signedHeaders_def)








lemma sample_headers_present:
  "getHeader sample_headers ''x-fo-signature'' = Some ''sha256=6b313233342e7b7d''"
  "getHeader sample_headers ''x-fo-timestamp'' = Some ''1234''"
  by (simp_all add: sample_headers_def getHeader_def)

lemma parseInt_1234: "parseInt ''1234'' = Some 1234"
  by (simp add: parseInt_def StrWhiteSpaceChar_def isDigit_def mathInt_def digitValue_def)

text \<open>
  C3. With both headers present (not empty) and a timestamp header that parses to the
  integer \<open>ts\<close>, verification fails as stale-or-future exactly when the age
  \<open>now - ts * 1000\<close> is above 300000 or below -60000. So a timestamp more than 300
  seconds old fails this way, and the timestamp 299 seconds before the current second
  passes the timestamp check.
\<close>

theorem timestamp_window:
  assumes "getHeader hs ''x-fo-signature'' = Some sig" "sig \<noteq> []"
    and "getHeader hs ''x-fo-timestamp'' = Some t" "t \<noteq> []"
    and "parseInt t = Some ts"
  shows "((verifyWebhook hmac now body hs secret = Inl StaleOrFutureTimestamp)
            \<longleftrightarrow> (now - ts * 1000 > 300000 \<or> now - ts * 1000 < - 60000))
         \<and> (ts * 1000 < now - 300 * 1000
            \<longrightarrow> verifyWebhook hmac now body hs secret = Inl StaleOrFutureTimestamp)
         \<and> (ts = now div 1000 - 299
            \<longrightarrow> verifyWebhook hmac now body hs secret \<noteq> Inl StaleOrFutureTimestamp)"
proof -
  have iff: "(verifyWebhook hmac now body hs secret = Inl StaleOrFutureTimestamp)
            \<longleftrightarrow> (now - ts * 1000 > 300000 \<or> now - ts * 1000 < - 60000)"
    by (simp add: verifyWebhook_checked[OF assms(1-4)] assms(5))
  have old: "ts * 1000 < now - 300 * 1000 \<Longrightarrow> now - ts * 1000 > 300000" by arith
  have edge: "\<not> (now - (now div 1000 - 299) * 1000 > 300000
                \<or> now - (now div 1000 - 299) * 1000 < - 60000)"
  proof -
    have "now - (now div 1000 - 299) * 1000 = now mod 1000 + 299000"
      by (simp add: algebra_simps minus_div_mult_eq_mod[symmetric])
    moreover have "0 \<le> now mod 1000" "now mod 1000 < 1000" by simp_all
    ultimately show ?thesis by arith
  qed
  show ?thesis using iff old edge by auto
qed

theorem timestamp_window_witness:
  "verifyWebhook sample_hmac 1534001 ''{}'' sample_headers ''k'' = Inl StaleOrFutureTimestamp
   \<and> verifyWebhook sample_hmac 1533999 ''{}'' sample_headers ''k'' \<noteq> Inl StaleOrFutureTimestamp
   \<and> verifyWebhook sample_hmac 1173999 ''{}'' sample_headers ''k'' = Inl StaleOrFutureTimestamp"
proof -
  have ne: "''sha256=6b313233342e7b7d'' \<noteq> []" "''1234'' \<noteq> []" by simp_all
  note w = timestamp_window[where hmac = sample_hmac and body = "''{}''" and secret = "''k''",
      OF sample_headers_present(1) ne(1) sample_headers_present(2) ne(2) parseInt_1234]
  show ?thesis
    using w[of 1534001] w[of 1533999] w[of 1173999] by simp
qed

text \<open>
  C8 (as amended). With both headers present (not empty), verification fails as an invalid
  timestamp exactly when the timestamp header holds no number: after leading white space
  and one optional sign it does not go on with a decimal digit. A header that begins with
  decimal digits goes on to the age and signature checks with the value of those digits,
  whatever follows them; so \<open>123abc\<close> is read as 123.
\<close>

theorem invalid_timestamp_iff_no_number:
  assumes "getHeader hs ''x-fo-signature'' = Some sig" "sig \<noteq> []"
    and "getHeader hs ''x-fo-timestamp'' = Some t" "t \<noteq> []"
  shows "((verifyWebhook hmac now body hs secret = Inl InvalidTimestamp) \<longleftrightarrow> noNumber t)
       \<and> (\<forall>ds rest. t = ds @ rest \<and> ds \<noteq> [] \<and> (\<forall>c \<in> set ds. isDigit c)
              \<and> (case rest of [] \<Rightarrow> True | r # _ \<Rightarrow> \<not> isDigit r)
            \<longrightarrow> verifyWebhook hmac now body hs secret =
                 (if now - int (mathInt ds) * 1000 > 300000 \<or> now - int (mathInt ds) * 1000 < - 60000
                  then Inl StaleOrFutureTimestamp
                  else if sig = ''sha256='' @ hmac secret (t @ ''.'' @ body) then Inr ()
                  else Inl InvalidSignature))"
proof -
  have a: "(verifyWebhook hmac now body hs secret = Inl InvalidTimestamp) \<longleftrightarrow> noNumber t"
    by (simp add: verifyWebhook_checked[OF assms] parseInt_None_iff[symmetric] split: option.splits)
  have b: "verifyWebhook hmac now body hs secret =
                 (if now - int (mathInt ds) * 1000 > 300000 \<or> now - int (mathInt ds) * 1000 < - 60000
                  then Inl StaleOrFutureTimestamp
                  else if sig = ''sha256='' @ hmac secret (t @ ''.'' @ body) then Inr ()
                  else Inl InvalidSignature)"
    if "t = ds @ rest" "ds \<noteq> []" "\<forall>c \<in> set ds. isDigit c"
       "case rest of [] \<Rightarrow> True | r # _ \<Rightarrow> \<not> isDigit r" for ds rest
    using parseInt_digit_prefix[OF that(2,3,4)] that(1)
    by (simp add: verifyWebhook_checked[OF assms])
  show ?thesis using a b by blast
qed

theorem invalid_timestamp_iff_no_number_witness:
  "verifyWebhook sample_hmac 123000 ''{}'' wordy_headers ''k'' = Inl InvalidTimestamp
   \<and> verifyWebhook sample_hmac 123000 ''{}'' suffixed_headers ''k'' = Inr ()"
proof -
  have s: "getHeader wordy_headers ''x-fo-signature'' = Some ''sha256=6b3132336162632e7b7d''"
    "getHeader suffixed_headers ''x-fo-signature'' = Some ''sha256=6b3132336162632e7b7d''"
    "getHeader wordy_headers ''x-fo-timestamp'' = Some ''soon''"
    "getHeader suffixed_headers ''x-fo-timestamp'' = Some ''123abc''"
    by (simp_all add: wordy_headers_def suffixed_headers_def getHeader_def)
  have ne: "''sha256=6b3132336162632e7b7d'' \<noteq> []" "''soon'' \<noteq> []" "''123abc'' \<noteq> []"
    by simp_all
  have n: "noNumber ''soon''"
    by (simp add: noNumber_def StrWhiteSpaceChar_def isDigit_def)
  have d: "''123abc'' = ''123'' @ ''abc'' \<and> ''123'' \<noteq> [] \<and> (\<forall>c \<in> set ''123''. isDigit c)
              \<and> (case ''abc'' of [] \<Rightarrow> True | r # _ \<Rightarrow> \<not> isDigit r)"
    by (simp add: isDigit_def)
  have m: "mathInt ''123'' = 123" by (simp add: mathInt_def digitValue_def)
  have h: "sample_hmac ''k'' ''123abc.{}'' = ''6b3132336162632e7b7d''"
    by (simp add: sample_hmac_def hexDigit_def)
  from invalid_timestamp_iff_no_number[where hmac = sample_hmac and now = 123000
      and body = "''{}''" and secret = "''k''", OF s(1) ne(1) s(3) ne(2)] n
  have 1: "verifyWebhook sample_hmac 123000 ''{}'' wordy_headers ''k'' = Inl InvalidTimestamp"
    by blast
  from invalid_timestamp_iff_no_number[where hmac = sample_hmac and now = 123000
      and body = "''{}''" and secret = "''k''", OF s(2) ne(1) s(4) ne(3)] d
  have "verifyWebhook sample_hmac 123000 ''{}'' suffixed_headers ''k'' =
      (if 123000 - int (mathInt ''123'') * 1000 > 300000 \<or> 123000 - int (mathInt ''123'') * 1000 < - 60000
                  then Inl StaleOrFutureTimestamp
                  else if ''sha256=6b3132336162632e7b7d'' = ''sha256='' @ sample_hmac ''k'' (''123abc'' @ ''.'' @ ''{}'') then Inr ()
                  else Inl InvalidSignature)"
    by blast
  then have 2: "verifyWebhook sample_hmac 123000 ''{}'' suffixed_headers ''k'' = Inr ()"
    by (simp add: m h)
  show ?thesis using 1 2 by simp
qed

text \<open>
  The claim as first stated fails: a correctly signed call whose timestamp header is
  \<open>123abc\<close> is accepted at the time 123 seconds.
\<close>

theorem suffixed_timestamp_counterexample:
  "getHeader suffixed_headers ''x-fo-timestamp'' = Some ''123abc''
   \<and> verifyWebhook sample_hmac 123000 ''{}'' suffixed_headers ''k'' = Inr ()"
  by (simp add: suffixed_headers_def verifyWebhook_def getHeader_def parseInt_def
      StrWhiteSpaceChar_def isDigit_def mathInt_def digitValue_def TIMESTAMP_TOLERANCE_MS_def
      sample_hmac_def hexDigit_def timingSafeEqual_def Buffer_from_def utf8_unit_def Let_def)

text \<open>
  C10. A header bound to an array of strings is verified exactly as the same header bound
  to the first string of the array, and a header bound to the empty array exactly as a
  header that is not there: for either of the two headers the call then fails as a missing
  header.
\<close>

theorem array_header_is_first_element:
  "verifyWebhook hmac now body (hs(k \<mapsto> Multi (v # vs))) secret
      = verifyWebhook hmac now body (hs(k \<mapsto> Single v)) secret
   \<and> verifyWebhook hmac now body (hs(k \<mapsto> Multi [])) secret
      = verifyWebhook hmac now body (hs(k := None)) secret
   \<and> (k = ''x-fo-signature'' \<or> k = ''x-fo-timestamp''
        \<longrightarrow> verifyWebhook hmac now body (hs(k \<mapsto> Multi [])) secret
              \<in> {Inl MissingSignature, Inl MissingTimestamp})"
proof -
  have 1: "verifyWebhook hmac now body (hs(k \<mapsto> Multi (v # vs))) secret
      = verifyWebhook hmac now body (hs(k \<mapsto> Single v)) secret"
    by (rule verifyWebhook_cong) (simp_all add: getHeader_def)
  have 2: "verifyWebhook hmac now body (hs(k \<mapsto> Multi [])) secret
      = verifyWebhook hmac now body (hs(k := None)) secret"
    by (rule verifyWebhook_cong) (simp_all add: getHeader_def)
  have 3: "verifyWebhook hmac now body (hs(''x-fo-signature'' \<mapsto> Multi [])) secret
             = Inl MissingSignature"
    by (simp add: verifyWebhook_def getHeader_def)
  have 4: "verifyWebhook hmac now body (hs(''x-fo-timestamp'' \<mapsto> Multi [])) secret
              \<in> {Inl MissingSignature, Inl MissingTimestamp}"
    by (simp add: verifyWebhook_def getHeader_def split: option.splits header_value.splits list.splits)
  show ?thesis using 1 2 3 4 by auto
qed

theorem array_header_is_first_element_witness:
  "verifyWebhook sample_hmac 1234567 ''{}''
      (sample_headers(''x-fo-timestamp'' \<mapsto> Multi [''1234'', ''9999''])) ''k'' = Inr ()
   \<and> verifyWebhook sample_hmac 1234567 ''{}''
      (sample_headers(''x-fo-timestamp'' \<mapsto> Multi [])) ''k'' = Inl MissingTimestamp
   \<and> verifyWebhook sample_hmac 1234567 ''{}''
      (sample_headers(''x-fo-signature'' \<mapsto> Multi [])) ''k'' = Inl MissingSignature"
proof -
  have same: "sample_headers(''x-fo-timestamp'' \<mapsto> Single ''1234'') = sample_headers"
    by (rule ext) (simp add: sample_headers_def)
  have ok: "verifyWebhook sample_hmac 1234567 ''{}'' sample_headers ''k'' = Inr ()"
    using verifyWebhook_fresh[of sample_hmac 1234567 "''{}''" "''k''"]
    by (simp add: sample_signature signedHeaders_def sample_headers_def)
  have gone: "verifyWebhook sample_hmac 1234567 ''{}'' (sample_headers(''x-fo-timestamp'' := None)) ''k''
                = Inl MissingTimestamp"
    "verifyWebhook sample_hmac 1234567 ''{}'' (sample_headers(''x-fo-signature'' := None)) ''k''
                = Inl MissingSignature"
    by (simp_all add: verifyWebhook_def getHeader_def sample_headers_def)
  show ?thesis
    using array_header_is_first_element[of sample_hmac 1234567 "''{}''" sample_headers
        "''x-fo-timestamp''" "''1234''" "[''9999'']" "''k''"]
      array_header_is_first_element[of sample_hmac 1234567 "''{}''" sample_headers
        "''x-fo-signature''" "''1234''" "[''9999'']" "''k''"]
    by (simp add: same ok gone)
qed

section \<open>Construction of a tool\<close>

text \<open>
  C9 (as amended). \<open>defineTool\<close> accepts a configuration exactly when its name matches
  the pattern and has at most 64 characters and, besides, its description is not blank and
  has at most 1024 characters. The two name checks fail exactly when the name does not
  match or is longer than 64: the names \<open>Query_CRM\<close>, \<open>1abc\<close>, \<open>has-hyphen\<close> and every
  name of 65 characters are rejected whatever the description, and \<open>query_crm\<close> with a
  proper description is accepted.
\<close>

theorem defineTool_accepts_iff:
  "((\<exists>tool. defineTool config = Inr tool) \<longleftrightarrow>
       TOOL_NAME_REGEX_test (config_name config) \<and> length (config_name config) \<le> 64
     \<and> trim (config_description config) \<noteq> [] \<and> length (config_description config) \<le> 1024)
   \<and> (defineTool config \<in> {Inl InvalidName, Inl NameTooLong} \<longleftrightarrow>
        \<not> (TOOL_NAME_REGEX_test (config_name config) \<and> length (config_name config) \<le> 64))
   \<and> (config_name config \<in> {''Query_CRM'', ''1abc'', ''has-hyphen''}
        \<longrightarrow> defineTool config = Inl InvalidName)
   \<and> (length (config_name config) = 65
        \<longrightarrow> defineTool config \<in> {Inl InvalidName, Inl NameTooLong})
   \<and> (config_name config = ''query_crm'' \<and> trim (config_description config) \<noteq> []
        \<and> length (config_description config) \<le> 1024
        \<longrightarrow> (\<exists>tool. defineTool config = Inr tool \<and> tool_name tool = ''query_crm''))"
proof -
  have ex: "TOOL_NAME_REGEX_test ''query_crm''" "\<not> TOOL_NAME_REGEX_test ''Query_CRM''"
    "\<not> TOOL_NAME_REGEX_test ''1abc''" "\<not> TOOL_NAME_REGEX_test ''has-hyphen''"
    by (simp_all add: TOOL_NAME_REGEX_test_def isLower_def isDigit_def)
  have 1: "(\<exists>tool. defineTool config = Inr tool) \<longleftrightarrow>
       TOOL_NAME_REGEX_test (config_name config) \<and> length (config_name config) \<le> 64
     \<and> trim (config_description config) \<noteq> [] \<and> length (config_description config) \<le> 1024"
    by (auto simp: defineTool_def)
  have 2: "defineTool config \<in> {Inl InvalidName, Inl NameTooLong} \<longleftrightarrow>
        \<not> (TOOL_NAME_REGEX_test (config_name config) \<and> length (config_name config) \<le> 64)"
    by (auto simp: defineTool_def)
  have 3: "config_name config \<in> {''Query_CRM'', ''1abc'', ''has-hyphen''}
        \<longrightarrow> defineTool config = Inl InvalidName"
    using ex by (auto simp: defineTool_def)
  have 4: "length (config_name config) = 65
        \<longrightarrow> defineTool config \<in> {Inl InvalidName, Inl NameTooLong}"
    by (auto simp: defineTool_def)
  have 5: "config_name config = ''query_crm'' \<and> trim (config_description config) \<noteq> []
        \<and> length (config_description config) \<le> 1024
        \<longrightarrow> (\<exists>tool. defineTool config = Inr tool \<and> tool_name tool = ''query_crm'')"
    using ex by (auto simp: defineTool_def)
  show ?thesis using 1 2 3 4 5 by blast
qed

theorem defineTool_accepts_iff_witness:
  "(\<exists>tool. defineTool crm_config = Inr tool \<and> tool_name tool = ''query_crm'')
   \<and> defineTool (crm_config\<lparr>config_name := ''has-hyphen''\<rparr>) = Inl InvalidName
   \<and> defineTool (crm_config\<lparr>config_name := replicate 65 CHR ''a''\<rparr>) = Inl NameTooLong
   \<and> defineTool blank_config = Inl EmptyDescription"
proof -
  have a: "config_name crm_config = ''query_crm'' \<and> trim (config_description crm_config) \<noteq> []
        \<and> length (config_description crm_config) \<le> 1024"
    by (simp add: crm_config_def trim_def StrWhiteSpaceChar_def)
  have b: "config_name (crm_config\<lparr>config_name := ''has-hyphen''\<rparr>)
             \<in> {''Query_CRM'', ''1abc'', ''has-hyphen''}"
    by simp
  have c: "defineTool (crm_config\<lparr>config_name := replicate 65 CHR ''a''\<rparr>) = Inl NameTooLong"
    by (simp add: defineTool_def TOOL_NAME_REGEX_test_def isLower_def
        numeral_eq_Suc list_all_iff)
  have d: "defineTool blank_config = Inl EmptyDescription"
    by (simp add: blank_config_def defineTool_def TOOL_NAME_REGEX_test_def isLower_def
        isDigit_def trim_def StrWhiteSpaceChar_def)
  show ?thesis
    using defineTool_accepts_iff[of crm_config]
      defineTool_accepts_iff[of "crm_config\<lparr>config_name := ''has-hyphen''\<rparr>"]
      a b c d
    by blast
qed

text \<open>
  The claim as first stated fails: the name \<open>query_crm\<close> matches the pattern and is short
  enough, and the configuration is still rejected, for its blank description.
\<close>

theorem blank_description_counterexample:
  "TOOL_NAME_REGEX_test (config_name blank_config)
   \<and> length (config_name blank_config) \<le> 64
   \<and> defineTool blank_config = Inl EmptyDescription"
  by (simp add: blank_config_def defineTool_def TOOL_NAME_REGEX_test_def isLower_def isDigit_def
      trim_def StrWhiteSpaceChar_def)

section \<open>Runs of the handler\<close>

lemma injectEnv_foldl:
  "foldl (\<lambda>env key. case getEnv process_env key of
                       None \<Rightarrow> env
                     | Some val \<Rightarrow> setProperty env key val) acc keys k
     = (if k \<in> set keys \<and> k \<noteq> ''__proto__'' \<and> getEnv process_env k \<noteq> None
        then getEnv process_env k else acc k)"
proof (induction keys arbitrary: acc)
  case Nil
  then show ?case by simp
next
  case (Cons a keys)
  show ?case
    by (cases "getEnv process_env a") (auto simp: Cons.IH setProperty_def)
qed

lemma injectEnv_apply:
  "injectEnv process_env keys k
     = (if k \<in> set keys \<and> k \<noteq> ''__proto__'' then getEnv process_env k else None)"
  by (simp add: injectEnv_def injectEnv_foldl)

lemma answer_plain [simp]:
  "answer JSON_stringify fresh status (ErrorBody m)
     = \<lparr>head_stored = Some status, responses = [(status, ErrorBody m)], executions = [],
        console_errors = [], escaped = None\<rparr>"
  by (simp add: answer_def sendJson_def stringifyBody_def fresh_def)

lemma answer_validation:
  "answer JSON_stringify fresh status (ValidationBody m issues)
     = (case JSON_stringify (Inl issues) of
          None \<Rightarrow> \<lparr>head_stored = Some status, responses = [(status, ValidationBody m issues)],
                    executions = [], console_errors = [], escaped = None\<rparr>
        | Some exn \<Rightarrow> \<lparr>head_stored = Some status, responses = [], executions = [],
                    console_errors = [], escaped = Some exn\<rparr>)"
  by (simp add: answer_def sendJson_def stringifyBody_def fresh_def split: option.splits)

lemma catchBlock_fresh:
  "catchBlock JSON_stringify (fresh\<lparr>executions := ex\<rparr>) err
     = \<lparr>head_stored = Some 500, responses = [(500, FailureBody (caughtMessage err))],
        executions = ex, console_errors = [err], escaped = None\<rparr>"
  by (simp add: catchBlock_def answer_def sendJson_def stringifyBody_def fresh_def)

lemma success_branch:
  "(case sendJson JSON_stringify (fresh\<lparr>executions := ex\<rparr>) 200 (SuccessBody result) of
      (None, res') \<Rightarrow> res'
    | (Some err, res') \<Rightarrow> catchBlock JSON_stringify res' err)
   = (case JSON_stringify (Inr result) of
        None \<Rightarrow> \<lparr>head_stored = Some 200, responses = [(200, SuccessBody result)],
                  executions = ex, console_errors = [], escaped = None\<rparr>
      | Some err \<Rightarrow> \<lparr>head_stored = Some 200, responses = [], executions = ex,
                  console_errors = [err], escaped = Some ERR_HTTP_HEADERS_SENT\<rparr>)"
  by (simp add: catchBlock_def answer_def sendJson_def stringifyBody_def fresh_def
      split: option.splits)

lemmas run_simps = createToolHandler_def answer_validation catchBlock_fresh success_branch
  throws_def Let_def

lemma executed_only_after_checks:
  assumes "(p, ctx) \<in> set (executions
             (createToolHandler hmac JSON_parse JSON_stringify process_env now tool secret req))"
  shows "\<exists>rawBody payload params c rid.
           req_method req = ''POST'' \<and> req_body req = Some rawBody
         \<and> verifyWebhook hmac now rawBody (req_headers req) secret = Inr ()
         \<and> JSON_parse rawBody = Some payload
         \<and> getProp payload ''params'' = Inr params
         \<and> tool_parameters tool params = Inr (SafeParseSuccess p)
         \<and> getProp payload ''context'' = Inr c
         \<and> getProp payload ''requestId'' = Inr rid
         \<and> ctx = makeContext process_env (tool_name tool) (tool_env tool) c rid"
  using assms
  by (auto simp: run_simps
      split: if_splits option.splits sum.splits SafeParseReturnType.splits)

lemma at_most_one_execution:
  "length (executions
     (createToolHandler hmac JSON_parse JSON_stringify process_env now tool secret req)) \<le> 1"
  by (auto simp: run_simps
      split: if_splits option.splits sum.splits SafeParseReturnType.splits)


lemmas sample_simps = createToolHandler_def signedRequest_def verifyWebhook_fresh
  sample_JSON_parse_def sample_body_ok_def sample_body_bad_params_def getProp_def echo_tool_def
  failing_tool_def bigint_tool_def prototype_tool_def sample_JSON_stringify_def
  answer_validation catchBlock_fresh success_branch throws_def

lemma sample_run_ok:
  "createToolHandler sample_hmac sample_JSON_parse sample_JSON_stringify sample_env 1234567
     echo_tool ''k'' (signedRequest 1234567 sample_body_ok ''k'')
   = \<lparr>head_stored = Some 200, responses = [(200, SuccessBody (Doubled 42))],
      executions = [(21, sample_context)], console_errors = [], escaped = None\<rparr>"
  by (simp add: sample_simps sample_context_def)

lemma sample_run_failing:
  "createToolHandler sample_hmac sample_JSON_parse sample_JSON_stringify sample_env 1234567
     failing_tool ''k'' (signedRequest 1234567 sample_body_ok ''k'')
   = \<lparr>head_stored = Some 500, responses = [(500, FailureBody ''boom'')],
      executions = [(21, sample_context)], console_errors = [Error ''boom''], escaped = None\<rparr>"
  by (simp add: sample_simps sample_context_def)


lemma sample_run_prototype:
  "createToolHandler sample_hmac sample_JSON_parse sample_JSON_stringify sample_env 1234567
     prototype_tool ''k'' (signedRequest 1234567 sample_body_ok ''k'')
   = \<lparr>head_stored = Some 200, responses = [(200, SuccessBody (Doubled 42))],
      executions = [(21, prototype_context)], console_errors = [], escaped = None\<rparr>"
  by (simp add: sample_simps prototype_context_def)

lemma sample_run_null:
  "createToolHandler sample_hmac sample_JSON_parse sample_JSON_stringify sample_env 1234567
     echo_tool ''k'' (signedRequest 1234567 ''null'' ''k'') = throws TypeError"
  by (simp add: sample_simps)

lemma sample_verify_unsigned:
  "verifyWebhook sample_hmac 1234567 sample_body_ok Map.empty ''k'' = Inl MissingSignature"
  by (simp add: verifyWebhook_def getHeader_def)

text \<open>
  C4. \<open>execute\<close> is called at most once, and only when the body was read, the signature
  verified, the body parsed and the schema accepted \<open>params\<close>; its first argument is
  then the validated data the schema returned. When verification, parsing or validation
  fails, \<open>execute\<close> is not called.
\<close>

theorem execute_only_with_validated_params:
  "((p, ctx) \<in> set (executions
        (createToolHandler hmac JSON_parse JSON_stringify process_env now tool secret req))
      \<longrightarrow> (\<exists>rawBody payload params.
            req_body req = Some rawBody
          \<and> verifyWebhook hmac now rawBody (req_headers req) secret = Inr ()
          \<and> JSON_parse rawBody = Some payload
          \<and> getProp payload ''params'' = Inr params
          \<and> tool_parameters tool params = Inr (SafeParseSuccess p)))
   \<and> length (executions
        (createToolHandler hmac JSON_parse JSON_stringify process_env now tool secret req)) \<le> 1
   \<and> (req_body req = Some body
        \<and> (verifyWebhook hmac now body (req_headers req) secret = Inl e
           \<or> JSON_parse body = None
           \<or> (JSON_parse body = Some v \<and> getProp v ''params'' = Inr raw
               \<and> (tool_parameters tool raw = Inr (SafeParseError issues)
                  \<or> tool_parameters tool raw = Inl exn)))
      \<longrightarrow> executions
            (createToolHandler hmac JSON_parse JSON_stringify process_env now tool secret req)
          = [])"
proof -
  let ?run = "createToolHandler hmac JSON_parse JSON_stringify process_env now tool secret req"
  have 1: "(p, ctx) \<in> set (executions ?run)
      \<longrightarrow> (\<exists>rawBody payload params.
            req_body req = Some rawBody
          \<and> verifyWebhook hmac now rawBody (req_headers req) secret = Inr ()
          \<and> JSON_parse rawBody = Some payload
          \<and> getProp payload ''params'' = Inr params
          \<and> tool_parameters tool params = Inr (SafeParseSuccess p))"
    using executed_only_after_checks[of p ctx hmac JSON_parse JSON_stringify process_env now
        tool secret req]
    by blast
  have 2: "length (executions ?run) \<le> 1" by (rule at_most_one_execution)
  have 3: "executions ?run = []"
    if "req_body req = Some body"
      and "verifyWebhook hmac now body (req_headers req) secret = Inl e
           \<or> JSON_parse body = None
           \<or> (JSON_parse body = Some v \<and> getProp v ''params'' = Inr raw
               \<and> (tool_parameters tool raw = Inr (SafeParseError issues)
                  \<or> tool_parameters tool raw = Inl exn))"
    using that
    by (auto simp: run_simps split: sum.splits option.splits)
  show ?thesis using 1 2 3 by blast
qed

theorem execute_only_with_validated_params_witness:
  "(21, sample_context) \<in> set (executions (createToolHandler sample_hmac sample_JSON_parse
        sample_JSON_stringify sample_env 1234567 echo_tool ''k''
        (signedRequest 1234567 sample_body_ok ''k'')))
   \<and> (\<exists>params. tool_parameters echo_tool params = Inr (SafeParseSuccess 21))
   \<and> executions (createToolHandler sample_hmac sample_JSON_parse sample_JSON_stringify
        sample_env 1234567 echo_tool ''k'' (signedRequest 1234567 sample_body_bad_params ''k'')) = []
   \<and> executions (createToolHandler sample_hmac sample_JSON_parse sample_JSON_stringify
        sample_env 1234567 echo_tool ''k'' (signedRequest 1234567 ''{oops'' ''k'')) = []
   \<and> executions (createToolHandler sample_hmac sample_JSON_parse sample_JSON_stringify
        sample_env 1234567 echo_tool ''k'' unsigned_request) = []"
proof -
  have m: "(21, sample_context) \<in> set (executions (createToolHandler sample_hmac sample_JSON_parse
        sample_JSON_stringify sample_env 1234567 echo_tool ''k''
        (signedRequest 1234567 sample_body_ok ''k'')))"
    by (simp add: sample_run_ok)
  have b1: "req_body (signedRequest 1234567 sample_body_bad_params ''k'') = Some sample_body_bad_params"
    and b2: "req_body (signedRequest 1234567 ''{oops'' ''k'') = Some ''{oops''"
    by (simp_all add: signedRequest_def)
  have p1: "sample_JSON_parse sample_body_bad_params = Some (JObj [(''params'', JObj [(''value'', JStr ''x'')])])
      \<and> getProp (JObj [(''params'', JObj [(''value'', JStr ''x'')])]) ''params''
            = Inr (Some (JObj [(''value'', JStr ''x'')]))
      \<and> tool_parameters echo_tool (Some (JObj [(''value'', JStr ''x'')]))
            = Inr (SafeParseError [''value: expected number''])"
    by (simp add: sample_JSON_parse_def sample_body_ok_def sample_body_bad_params_def getProp_def
        echo_tool_def)
  have p2: "sample_JSON_parse ''{oops'' = None"
    by (simp add: sample_JSON_parse_def sample_body_ok_def sample_body_bad_params_def)
  have p3: "req_body unsigned_request = Some sample_body_ok
    \<and> verifyWebhook sample_hmac 1234567 sample_body_ok (req_headers unsigned_request) ''k''
      = Inl MissingSignature"
    by (simp add: unsigned_request_def sample_verify_unsigned)
  note t = execute_only_with_validated_params[where hmac = sample_hmac
      and JSON_parse = sample_JSON_parse and JSON_stringify = sample_JSON_stringify
      and process_env = sample_env and now = 1234567 and tool = echo_tool and secret = "''k''"]
  from t[where req = "signedRequest 1234567 sample_body_ok ''k''" and p = 21 and ctx = sample_context] m
  have r1: "\<exists>params. tool_parameters echo_tool params = Inr (SafeParseSuccess 21)" by blast
  from t[where req = "signedRequest 1234567 sample_body_bad_params ''k''"
      and body = sample_body_bad_params
      and v = "JObj [(''params'', JObj [(''value'', JStr ''x'')])]"
      and raw = "Some (JObj [(''value'', JStr ''x'')])" and issues = "[''value: expected number'']"]
    b1 p1
  have r2: "executions (createToolHandler sample_hmac sample_JSON_parse sample_JSON_stringify
        sample_env 1234567 echo_tool ''k'' (signedRequest 1234567 sample_body_bad_params ''k'')) = []"
    by blast
  from t[where req = "signedRequest 1234567 ''{oops'' ''k''" and body = "''{oops''"] b2 p2
  have r3: "executions (createToolHandler sample_hmac sample_JSON_parse sample_JSON_stringify
        sample_env 1234567 echo_tool ''k'' (signedRequest 1234567 ''{oops'' ''k'')) = []"
    by blast
  from t[where req = unsigned_request and body = sample_body_ok and e = MissingSignature] p3
  have r4: "executions (createToolHandler sample_hmac sample_JSON_parse sample_JSON_stringify
        sample_env 1234567 echo_tool ''k'' unsigned_request) = []"
    by blast
  show ?thesis using m r1 r2 r3 r4 by blast
qed

text \<open>
  C5. The claim is that the \<open>env\<close> of the context holds exactly the declared names that are
  set, each with its ambient value. In every call of \<open>execute\<close> no undeclared name is
  bound, and a declared name that is not a member of \<open>Object.prototype\<close> is bound exactly
  when it is set, to its ambient value. But a declared name that is not set and is a member
  of the prototype (other than \<open>__proto__\<close>) is bound all the same, to that member: the
  loop reads \<open>process.env[key]\<close>, which also finds inherited members.
\<close>

theorem inherited_member_bound_in_env:
  assumes "(p, ctx) \<in> set (executions
             (createToolHandler hmac JSON_parse JSON_stringify process_env now tool secret req))"
  shows "(\<forall>key. key \<notin> set (tool_env tool) \<longrightarrow> context_env ctx key = None)
       \<and> (\<forall>key \<in> set (tool_env tool). key \<notin> set Object_prototype
             \<longrightarrow> context_env ctx key = map_option Variable (process_env key))
       \<and> (\<forall>key \<in> set (tool_env tool). key \<in> set Object_prototype \<and> key \<noteq> ''__proto__''
                \<and> process_env key = None
             \<longrightarrow> context_env ctx key = Some (Member key))"
proof -
  from executed_only_after_checks[OF assms] obtain c rid
    where "ctx = makeContext process_env (tool_name tool) (tool_env tool) c rid" by blast
  then have env: "context_env ctx = injectEnv process_env (tool_env tool)"
    by (simp add: makeContext_def)
  have proto: "''__proto__'' \<in> set Object_prototype" by (simp add: Object_prototype_def)
  show ?thesis
    using proto by (auto simp: env injectEnv_apply getEnv_def split: option.splits)
qed

theorem inherited_member_bound_in_env_witness:
  "(21, prototype_context) \<in> set (executions (createToolHandler sample_hmac sample_JSON_parse
        sample_JSON_stringify sample_env 1234567 prototype_tool ''k''
        (signedRequest 1234567 sample_body_ok ''k'')))
   \<and> sample_env ''toString'' = None
   \<and> context_env prototype_context ''toString'' = Some (Member ''toString'')
   \<and> context_env prototype_context ''API_KEY'' = Some (Variable ''k1'')
   \<and> context_env prototype_context ''HOME'' = None"
proof -
  have m: "(21, prototype_context) \<in> set (executions (createToolHandler sample_hmac
        sample_JSON_parse sample_JSON_stringify sample_env 1234567 prototype_tool ''k''
        (signedRequest 1234567 sample_body_ok ''k'')))"
    by (simp add: sample_run_prototype)
  have e: "tool_env prototype_tool = [''toString'', ''API_KEY'']"
    by (simp add: prototype_tool_def)
  have u: "sample_env ''toString'' = None" "sample_env ''API_KEY'' = Some ''k1''"
    by (simp_all add: sample_env_def)
  have o: "''toString'' \<in> set Object_prototype" "''API_KEY'' \<notin> set Object_prototype"
    by (simp_all add: Object_prototype_def)
  show ?thesis
    using inherited_member_bound_in_env[OF m] m e u o by simp
qed




text \<open>
  C7. The claim is that every request gets exactly one response. It fails for a correctly
  signed POST whose body is the JSON text \<open>null\<close>: reading \<open>params\<close> of the parsed value
  throws outside every \<open>try\<close>, the exception leaves the handler, and no response is sent.
\<close>

theorem null_payload_leaves_no_response:
  assumes "req_method req = ''POST''" and "req_body req = Some rawBody"
    and "verifyWebhook hmac now rawBody (req_headers req) secret = Inr ()"
    and "JSON_parse rawBody = Some JNull"
  shows "createToolHandler hmac JSON_parse JSON_stringify process_env now tool secret req
           = throws TypeError
       \<and> responses (createToolHandler hmac JSON_parse JSON_stringify process_env now tool secret req)
           = []
       \<and> escaped (createToolHandler hmac JSON_parse JSON_stringify process_env now tool secret req)
           = Some TypeError"
  using assms by (simp add: createToolHandler_def getProp_def throws_def)

theorem null_payload_leaves_no_response_witness:
  "responses (createToolHandler sample_hmac sample_JSON_parse sample_JSON_stringify sample_env
     1234567 echo_tool ''k'' (signedRequest 1234567 ''null'' ''k'')) = []
   \<and> escaped (createToolHandler sample_hmac sample_JSON_parse sample_JSON_stringify sample_env
     1234567 echo_tool ''k'' (signedRequest 1234567 ''null'' ''k'')) = Some TypeError"
proof -
  have 1: "req_method (signedRequest 1234567 ''null'' ''k'') = ''POST''"
    and 2: "req_body (signedRequest 1234567 ''null'' ''k'') = Some ''null''"
    by (simp_all add: signedRequest_def)
  have 3: "verifyWebhook sample_hmac 1234567 ''null''
             (req_headers (signedRequest 1234567 ''null'' ''k'')) ''k'' = Inr ()"
    by (simp add: signedRequest_def verifyWebhook_fresh)
  have 4: "sample_JSON_parse ''null'' = Some JNull"
    by (simp add: sample_JSON_parse_def)
  show ?thesis
    using null_payload_leaves_no_response[where req = "signedRequest 1234567 ''null'' ''k''"
        and rawBody = "''null''" and hmac = sample_hmac and now = 1234567 and secret = "''k''"
        and JSON_parse = sample_JSON_parse and JSON_stringify = sample_JSON_stringify
        and process_env = sample_env and tool = echo_tool,
        OF 1 2 3 4]
    by blast
qed

end
